theory Spec2Isabelle
  imports Main "HOL-Library.Word" "HOL-Library.Log_Nat" "HOL-Library.Code_Target_Numeral"
begin

section \<open>The rainbow daemon: command line and splitter configuration\<close>

text \<open>
  The daemon's \<open>main\<close> package declares eight flags and builds, in \<open>Splitter\<close>, the
  configuration of the splitter from five of them. Go's \<open>int64\<close>, \<open>uint64\<close> and
  \<open>time.Duration\<close> (an \<open>int64\<close> of nanoseconds) are 64-bit words; \<open>sint\<close> reads a signed
  one, \<open>uint\<close> an unsigned one.
\<close>

type_synonym int64 = "64 word"
type_synonym uint64 = "64 word"
type_synonym Duration = "64 word"

text \<open>
  A \<open>float64\<close>: a finite value \<open>m * 2 ^ e\<close> with \<open>\<bar>m\<bar> < 2 ^ 53\<close> and
  \<open>- 1074 \<le> e \<le> 971\<close>, an infinity, or NaN (the flag parser accepts all of them).
\<close>

datatype float64 = Finite int int | PlusInf | MinusInf | NaN

record Flags =
  crawl_insecure_ws :: bool
  splitter_host :: string
  persist_db :: string
  cursor_file :: string
  api_listen :: string
  metrics_listen :: string
  persist_hours :: float64
  persist_bytes :: int64

text \<open>The \<open>Value\<close> of each flag in \<open>run\<close>; a \<open>BoolFlag\<close> without one is false.\<close>

definition default_flags :: Flags where
  "default_flags =
     \<lparr> crawl_insecure_ws = False,
       splitter_host = ''bsky.network'',
       persist_db = ''./rainbow.db'',
       cursor_file = ''./rainbow-cursor'',
       api_listen = '':2480'',
       metrics_listen = '':2481'',
       persist_hours = Finite (24 * 7) 0,
       persist_bytes = 0 \<rparr>"

record PebblePersistOptions =
  DbPath :: string
  PersistDuration :: Duration
  GCPeriod :: Duration
  MaxBytes :: uint64

record SplitterConfig =
  UpstreamHost :: string
  CursorFile :: string
  PebbleOptions :: "PebblePersistOptions option"

text \<open>The constants of Go's \<open>time\<close> package, in nanoseconds.\<close>

definition Nanosecond :: Duration where "Nanosecond = 1"
definition Microsecond :: Duration where "Microsecond = 1000 * Nanosecond"
definition Millisecond :: Duration where "Millisecond = 1000 * Microsecond"
definition Second :: Duration where "Second = 1000 * Millisecond"
definition Minute :: Duration where "Minute = 60 * Second"
definition Hour :: Duration where "Hour = 60 * Minute"

text \<open>
  The conversion \<open>uint64(x)\<close> of an \<open>int64\<close>: the value of \<open>x\<close> modulo \<open>2 ^ 64\<close>.
\<close>

definition uint64_of_int64 :: "int64 \<Rightarrow> uint64" where
  "uint64_of_int64 x = word_of_int (sint x mod 2 ^ 64)"

subsection \<open>Floating point: the product and the conversion that \<open>Splitter\<close> uses\<close>

text \<open>
  IEEE 754 binary64 arithmetic, as far as \<open>Splitter\<close> needs it. \<open>round64 n e\<close> is the
  \<open>float64\<close> nearest to the exact value \<open>n * 2 ^ e\<close>, ties to even: the significand keeps
  53 bits (fewer below the smallest normal exponent), and a value too large becomes an
  infinity. The sign of a zero is not kept; nothing below depends on it.
\<close>

definition round_half_even :: "int \<Rightarrow> nat \<Rightarrow> int" where
  "round_half_even n k =
     (let q = n div 2 ^ k; r = n mod 2 ^ k in
      if 2 * r < 2 ^ k then q
      else if 2 * r > 2 ^ k then q + 1
      else if even q then q else q + 1)"

definition round64 :: "int \<Rightarrow> int \<Rightarrow> float64" where
  "round64 n e =
     (if n = 0 then Finite 0 0
      else
        let e' = max (e + bitlen \<bar>n\<bar> - 53) (- 1074);
            m = (if e' \<le> e then n * 2 ^ nat (e - e') else round_half_even n (nat (e' - e)));
            m' = (if \<bar>m\<bar> = 2 ^ 53 then m div 2 else m);
            e'' = (if \<bar>m\<bar> = 2 ^ 53 then e' + 1 else e')
        in if e'' > 971 then (if n > 0 then PlusInf else MinusInf) else Finite m' e'')"

text \<open>The conversion \<open>float64(x)\<close> of an \<open>int64\<close> rounds to the nearest \<open>float64\<close>.\<close>

definition float64_of_int64 :: "int64 \<Rightarrow> float64" where
  "float64_of_int64 x = round64 (sint x) 0"

text \<open>The product \<open>x * y\<close> of two \<open>float64\<close> values.\<close>

fun fmul :: "float64 \<Rightarrow> float64 \<Rightarrow> float64" where
  "fmul NaN y = NaN"
| "fmul x NaN = NaN"
| "fmul (Finite m1 e1) (Finite m2 e2) = round64 (m1 * m2) (e1 + e2)"
| "fmul (Finite m e) PlusInf = (if m = 0 then NaN else if m > 0 then PlusInf else MinusInf)"
| "fmul (Finite m e) MinusInf = (if m = 0 then NaN else if m > 0 then MinusInf else PlusInf)"
| "fmul PlusInf (Finite m e) = (if m = 0 then NaN else if m > 0 then PlusInf else MinusInf)"
| "fmul MinusInf (Finite m e) = (if m = 0 then NaN else if m > 0 then MinusInf else PlusInf)"
| "fmul PlusInf PlusInf = PlusInf"
| "fmul PlusInf MinusInf = MinusInf"
| "fmul MinusInf PlusInf = MinusInf"
| "fmul MinusInf MinusInf = PlusInf"

text \<open>
  The conversion \<open>int64(f)\<close> of a \<open>float64\<close> discards the fraction (it truncates towards
  zero). Where the result does not fit an \<open>int64\<close> (and for an infinity or NaN) the
  language leaves the value to the implementation: \<open>impl\<close> is that choice.
\<close>

definition trunc_zero :: "int \<Rightarrow> int \<Rightarrow> int" where
  "trunc_zero m e =
     (if e \<ge> 0 then m * 2 ^ nat e else sgn m * (\<bar>m\<bar> div 2 ^ nat (- e)))"

fun int64_of_float64 :: "(float64 \<Rightarrow> int64) \<Rightarrow> float64 \<Rightarrow> int64" where
  "int64_of_float64 impl (Finite m e) =
     (if - (2 ^ 63) \<le> trunc_zero m e \<and> trunc_zero m e < 2 ^ 63
      then word_of_int (trunc_zero m e) else impl (Finite m e))"
| "int64_of_float64 impl f = impl f"


subsection \<open>The configuration \<open>Splitter\<close> builds\<close>

text \<open>
  The value \<open>conf\<close> that \<open>Splitter\<close> passes to \<open>splitter.NewSplitter\<close>: with a
  persistence path, the upstream host, the cursor file and the options of the embedded
  store; without one, the upstream host and the cursor file only.
\<close>

definition Splitter_conf :: "(float64 \<Rightarrow> int64) \<Rightarrow> Flags \<Rightarrow> SplitterConfig" where
  "Splitter_conf impl cctx =
     (let persistPath = persist_db cctx;
          upstreamHost = splitter_host cctx
      in if persistPath \<noteq> []
         then
           let ppopts =
                 \<lparr> DbPath = persistPath,
                   PersistDuration =
                     int64_of_float64 impl (fmul (float64_of_int64 Hour) (persist_hours cctx)),
                   GCPeriod = 5 * Minute,
                   MaxBytes = uint64_of_int64 (persist_bytes cctx) \<rparr>
           in \<lparr> UpstreamHost = upstreamHost,
                CursorFile = cursor_file cctx,
                PebbleOptions = Some ppopts \<rparr>
         else
           \<lparr> UpstreamHost = upstreamHost,
             CursorFile = cursor_file cctx,
             PebbleOptions = None \<rparr>)"

subsection \<open>The life of the process\<close>

text \<open>
  What \<open>run\<close> and \<open>Splitter\<close> meet outside themselves: the command line library fails
  before the action, or prints the help or the version and returns without calling the
  action, or calls the action with the parsed flags; the trace exporter is set up when
  its endpoint variable is set, and may fail; \<open>NewSplitter\<close> may fail; afterwards the
  process waits, and the first thing that happens is a signal, the return of \<open>Start\<close>
  (the api listener), or the failure of the metrics endpoint in its own goroutine.
  \<open>log.Fatal\<close> and its variants end the process with code 1.
\<close>

text \<open>
  A Go \<open>error\<close>: the \<open>*NumError\<close> of \<open>strconv\<close> with its fields \<open>Func\<close>, \<open>Num\<close> and
  \<open>Err\<close>, or any other error with its message.
\<close>

datatype error = Err string | NumError string string string


datatype event = Signal | StartReturned "error option" | MetricsFailed error

record Env =
  OTEL_EXPORTER_OTLP_ENDPOINT :: string
  otlptracehttp_New :: "error option"
  exp_Shutdown :: "error option"
  NewSplitter :: "SplitterConfig \<Rightarrow> error option"
  first_event :: event
  Shutdown :: "error option"
  float_impl :: "float64 \<Rightarrow> int64"

datatype outcome = Exit nat | Return "error option"

text \<open>
  \<open>Splitter\<close> returns the lines it logged (the message, and the error logged with it)
  and how it ended: by \<open>os.Exit\<close> from a fatal log call, or by returning to \<open>app.Run\<close>.
  An error of \<open>spl.Shutdown\<close> is logged and nothing more; so is an error that
  \<open>spl.Start\<close> sent on \<open>runErr\<close>.
\<close>

type_synonym logline = "string \<times> error option"

definition shutdown_splitter :: "Env \<Rightarrow> logline list" where
  "shutdown_splitter env =
     (case Shutdown env of
        Some err \<Rightarrow> [(''error during Splitter shutdown'', Some err)]
      | None \<Rightarrow> [])"

definition Splitter :: "Env \<Rightarrow> Flags \<Rightarrow> logline list \<times> outcome" where
  "Splitter env cctx =
     (let ep = OTEL_EXPORTER_OTLP_ENDPOINT env;
          l0 = (if ep \<noteq> [] then [(''setting up trace exporter'', None)] else [])
      in if ep \<noteq> [] \<and> otlptracehttp_New env \<noteq> None
         then (l0 @ [(''failed to create trace exporter'', otlptracehttp_New env)], Exit 1)
         else
           let persistPath = persist_db cctx;
               l1 = l0 @ [if persistPath \<noteq> []
                          then (''building splitter with storage at: '' @ persistPath, None)
                          else (''building in-memory splitter'', None)];
               deferred = (if ep \<noteq> [] \<and> exp_Shutdown env \<noteq> None
                           then [(''failed to shutdown trace exporter'', exp_Shutdown env)]
                           else [])
           in case NewSplitter env (Splitter_conf (float_impl env) cctx) of
                Some err \<Rightarrow> (l1 @ [(''failed to create splitter'', Some err)], Exit 1)
              | None \<Rightarrow>
                  (case first_event env of
                     MetricsFailed err \<Rightarrow>
                       (l1 @ [(''startup complete'', None),
                              (''failed to start metrics endpoint: %s'', Some err)],
                        Exit 1)
                   | Signal \<Rightarrow>
                       (l1 @ [(''startup complete'', None), (''received shutdown signal'', None)]
                           @ shutdown_splitter env @ [(''shutdown complete'', None)] @ deferred,
                        Return None)
                   | StartReturned err \<Rightarrow>
                       (l1 @ [(''startup complete'', None)]
                           @ (if err \<noteq> None
                              then [(''error during Splitter startup'', err)] else [])
                           @ [(''shutting down'', None)]
                           @ shutdown_splitter env @ [(''shutdown complete'', None)] @ deferred,
                        Return None)))"


section \<open>The automod engine: the effects of rule execution\<close>

text \<open>
  \<open>Effects\<close> collects what the rules ask for. Its methods take the receiver's mutex
  where they touch a list, so each runs alone; the model is the state after the call.
  The fields \<open>Name\<close> and \<open>Val\<close> of \<open>CounterDistinctRef\<close> are written \<open>DistinctName\<close> and
  \<open>DistinctVal\<close>, since a record's fields are constants of their own.
\<close>

record CounterRef =
  Name :: string
  Val :: string
  Period :: "string option"

record CounterDistinctRef =
  DistinctName :: string
  Bucket :: string
  DistinctVal :: string

record ModReport =
  ReasonType :: string
  Comment :: string

record Effects =
  CounterIncrements :: "CounterRef list"
  CounterDistinctIncrements :: "CounterDistinctRef list"
  AccountLabels :: "string list"
  AccountFlags :: "string list"
  AccountReports :: "ModReport list"
  AccountTakedown :: bool
  AccountEscalate :: bool
  AccountAcknowledge :: bool
  RecordLabels :: "string list"
  RecordFlags :: "string list"
  RecordReports :: "ModReport list"
  RecordTakedown :: bool
  BlobTakedowns :: "string list"
  RejectEvent :: bool
  NotifyServices :: "string list"

text \<open>The zero value of the struct: what a rule starts from.\<close>

definition zero_Effects :: Effects where
  "zero_Effects =
     \<lparr> CounterIncrements = [], CounterDistinctIncrements = [],
       AccountLabels = [], AccountFlags = [], AccountReports = [],
       AccountTakedown = False, AccountEscalate = False, AccountAcknowledge = False,
       RecordLabels = [], RecordFlags = [], RecordReports = [],
       RecordTakedown = False, BlobTakedowns = [], RejectEvent = False,
       NotifyServices = [] \<rparr>"

text \<open>
  The loop \<open>for _, v := range xs { if v == val { return } }\<close>: whether it returns from
  the method. \<open>reported\<close> is the same loop over reports, comparing \<open>v.ReasonType\<close>.
\<close>

fun found :: "string list \<Rightarrow> string \<Rightarrow> bool" where
  "found [] val = False"
| "found (v # vs) val = (if v = val then True else found vs val)"

fun reported :: "ModReport list \<Rightarrow> string \<Rightarrow> bool" where
  "reported [] reason = False"
| "reported (v # vs) reason = (if ReasonType v = reason then True else reported vs reason)"

definition Increment :: "string \<Rightarrow> string \<Rightarrow> Effects \<Rightarrow> Effects" where
  "Increment name val e =
     e\<lparr>CounterIncrements :=
         CounterIncrements e @ [\<lparr>Name = name, Val = val, Period = None\<rparr>]\<rparr>"

definition IncrementPeriod :: "string \<Rightarrow> string \<Rightarrow> string \<Rightarrow> Effects \<Rightarrow> Effects" where
  "IncrementPeriod name val period e =
     e\<lparr>CounterIncrements :=
         CounterIncrements e @ [\<lparr>Name = name, Val = val, Period = Some period\<rparr>]\<rparr>"

definition IncrementDistinct :: "string \<Rightarrow> string \<Rightarrow> string \<Rightarrow> Effects \<Rightarrow> Effects" where
  "IncrementDistinct name bucket val e =
     e\<lparr>CounterDistinctIncrements :=
         CounterDistinctIncrements e
           @ [\<lparr>DistinctName = name, Bucket = bucket, DistinctVal = val\<rparr>]\<rparr>"

definition AddAccountLabel :: "string \<Rightarrow> Effects \<Rightarrow> Effects" where
  "AddAccountLabel val e =
     (if found (AccountLabels e) val then e
      else e\<lparr>AccountLabels := AccountLabels e @ [val]\<rparr>)"

definition AddAccountFlag :: "string \<Rightarrow> Effects \<Rightarrow> Effects" where
  "AddAccountFlag val e =
     (if found (AccountFlags e) val then e
      else e\<lparr>AccountFlags := AccountFlags e @ [val]\<rparr>)"

definition ReportAccount :: "string \<Rightarrow> string \<Rightarrow> Effects \<Rightarrow> Effects" where
  "ReportAccount reason comment e =
     (let comment' = (if comment = [] then ''(reporting without comment)'' else comment)
      in if reported (AccountReports e) reason then e
         else e\<lparr>AccountReports :=
                  AccountReports e @ [\<lparr>ReasonType = reason, Comment = comment'\<rparr>]\<rparr>)"

definition TakedownAccount :: "Effects \<Rightarrow> Effects" where
  "TakedownAccount e = e\<lparr>AccountTakedown := True\<rparr>"

definition EscalateAccount :: "Effects \<Rightarrow> Effects" where
  "EscalateAccount e = e\<lparr>AccountEscalate := True\<rparr>"

definition AcknowledgeAccount :: "Effects \<Rightarrow> Effects" where
  "AcknowledgeAccount e = e\<lparr>AccountAcknowledge := True\<rparr>"

definition AddRecordLabel :: "string \<Rightarrow> Effects \<Rightarrow> Effects" where
  "AddRecordLabel val e =
     (if found (RecordLabels e) val then e
      else e\<lparr>RecordLabels := RecordLabels e @ [val]\<rparr>)"

definition AddRecordFlag :: "string \<Rightarrow> Effects \<Rightarrow> Effects" where
  "AddRecordFlag val e =
     (if found (RecordFlags e) val then e
      else e\<lparr>RecordFlags := RecordFlags e @ [val]\<rparr>)"

definition ReportRecord :: "string \<Rightarrow> string \<Rightarrow> Effects \<Rightarrow> Effects" where
  "ReportRecord reason comment e =
     (let comment' = (if comment = [] then ''(reporting without comment)'' else comment)
      in if reported (RecordReports e) reason then e
         else e\<lparr>RecordReports :=
                  RecordReports e @ [\<lparr>ReasonType = reason, Comment = comment'\<rparr>]\<rparr>)"

definition TakedownRecord :: "Effects \<Rightarrow> Effects" where
  "TakedownRecord e = e\<lparr>RecordTakedown := True\<rparr>"

definition TakedownBlob :: "string \<Rightarrow> Effects \<Rightarrow> Effects" where
  "TakedownBlob cid e =
     (if found (BlobTakedowns e) cid then e
      else e\<lparr>BlobTakedowns := BlobTakedowns e @ [cid]\<rparr>)"

definition Notify :: "string \<Rightarrow> Effects \<Rightarrow> Effects" where
  "Notify srv e =
     (if found (NotifyServices e) srv then e
      else e\<lparr>NotifyServices := NotifyServices e @ [srv]\<rparr>)"

definition Reject :: "Effects \<Rightarrow> Effects" where
  "Reject e = e\<lparr>RejectEvent := True\<rparr>"

text \<open>A call of one of the methods, and a sequence of calls on one \<open>Effects\<close>.\<close>

datatype call =
    CallIncrement string string
  | CallIncrementPeriod string string string
  | CallIncrementDistinct string string string
  | CallAddAccountLabel string
  | CallAddAccountFlag string
  | CallReportAccount string string
  | CallTakedownAccount
  | CallEscalateAccount
  | CallAcknowledgeAccount
  | CallAddRecordLabel string
  | CallAddRecordFlag string
  | CallReportRecord string string
  | CallTakedownRecord
  | CallTakedownBlob string
  | CallNotify string
  | CallReject

fun do_call :: "call \<Rightarrow> Effects \<Rightarrow> Effects" where
  "do_call (CallIncrement name val) e = Increment name val e"
| "do_call (CallIncrementPeriod name val period) e = IncrementPeriod name val period e"
| "do_call (CallIncrementDistinct name bucket val) e = IncrementDistinct name bucket val e"
| "do_call (CallAddAccountLabel val) e = AddAccountLabel val e"
| "do_call (CallAddAccountFlag val) e = AddAccountFlag val e"
| "do_call (CallReportAccount reason comment) e = ReportAccount reason comment e"
| "do_call CallTakedownAccount e = TakedownAccount e"
| "do_call CallEscalateAccount e = EscalateAccount e"
| "do_call CallAcknowledgeAccount e = AcknowledgeAccount e"
| "do_call (CallAddRecordLabel val) e = AddRecordLabel val e"
| "do_call (CallAddRecordFlag val) e = AddRecordFlag val e"
| "do_call (CallReportRecord reason comment) e = ReportRecord reason comment e"
| "do_call CallTakedownRecord e = TakedownRecord e"
| "do_call (CallTakedownBlob cid) e = TakedownBlob cid e"
| "do_call (CallNotify srv) e = Notify srv e"
| "do_call CallReject e = Reject e"

fun do_calls :: "call list \<Rightarrow> Effects \<Rightarrow> Effects" where
  "do_calls [] e = e"
| "do_calls (c # cs) e = do_calls cs (do_call c e)"

text \<open>
  The six lists that are kept as sets hold no value twice.
\<close>

definition no_duplicates :: "Effects \<Rightarrow> bool" where
  "no_duplicates e \<longleftrightarrow>
     distinct (AccountLabels e) \<and> distinct (AccountFlags e) \<and> distinct (RecordLabels e)
     \<and> distinct (RecordFlags e) \<and> distinct (BlobTakedowns e) \<and> distinct (NotifyServices e)"

text \<open>A sequence of calls to try the methods on.\<close>

definition example_calls :: "call list" where
  "example_calls =
     [CallAddAccountLabel ''spam'', CallAddAccountFlag ''spam'', CallAddRecordLabel ''spam'',
      CallAddRecordFlag ''spam'', CallTakedownBlob ''spam'', CallNotify ''spam'',
      CallAddAccountLabel ''spam'', CallIncrement ''n'' ''v'', CallAddRecordLabel ''porn'']"

section \<open>The PDS: the generated request handlers\<close>

subsection \<open>Query parameters and \<open>strconv\<close>\<close>

text \<open>
  The query of a request is a \<open>url.Values\<close>: the values of each name, none for a name
  that is absent. \<open>c.QueryParam(name)\<close> is the first value of the name, or the empty
  string; \<open>c.QueryParams()[name]\<close> is all of them.
\<close>

type_synonym Values = "string \<Rightarrow> string list"

definition QueryParam :: "Values \<Rightarrow> string \<Rightarrow> string" where
  "QueryParam c name = (case c name of [] \<Rightarrow> [] | v # vs \<Rightarrow> v)"

text \<open>
  \<open>strconv.Atoi\<close> where \<open>int\<close> has 64 bits: an optional sign, then decimal digits, at
  least one. The digits are read from the left; the first character that is not a digit
  is a syntax error, and the first digit that takes the value past \<open>2 ^ 64 - 1\<close> is a
  range error, as is a value outside the \<open>int64\<close> range at the end.
\<close>

definition is_digit :: "char \<Rightarrow> bool" where
  "is_digit ch \<longleftrightarrow> (48 :: nat) \<le> of_char ch \<and> of_char ch \<le> (57 :: nat)"

definition digit :: "char \<Rightarrow> nat" where
  "digit ch = of_char ch - 48"

definition ErrSyntax :: string where "ErrSyntax = ''invalid syntax''"
definition ErrRange :: string where "ErrRange = ''value out of range''"

fun ParseUint :: "string \<Rightarrow> nat \<Rightarrow> string + nat" where
  "ParseUint [] n = Inr n"
| "ParseUint (ch # s) n =
     (if \<not> is_digit ch then Inl ErrSyntax
      else if 2 ^ 64 \<le> n * 10 + digit ch then Inl ErrRange
      else ParseUint s (n * 10 + digit ch))"

definition Atoi :: "string \<Rightarrow> error + int" where
  "Atoi s0 =
     (if s0 = [] then Inl (NumError ''Atoi'' s0 ErrSyntax)
      else
        let neg = (hd s0 = CHR ''-'');
            s = (if hd s0 = CHR ''+'' \<or> hd s0 = CHR ''-'' then tl s0 else s0)
        in if s = [] then Inl (NumError ''Atoi'' s0 ErrSyntax)
           else
             case ParseUint s 0 of
               Inl e \<Rightarrow> Inl (NumError ''Atoi'' s0 e)
             | Inr un \<Rightarrow>
                 if \<not> neg \<and> 2 ^ 63 \<le> un then Inl (NumError ''Atoi'' s0 ErrRange)
                 else if neg \<and> 2 ^ 63 < un then Inl (NumError ''Atoi'' s0 ErrRange)
                 else Inr (if neg then - int un else int un))"

definition ParseBool :: "string \<Rightarrow> error + bool" where
  "ParseBool str =
     (if str \<in> set [''1'', ''t'', ''T'', ''TRUE'', ''true'', ''True''] then Inr True
      else if str \<in> set [''0'', ''f'', ''F'', ''FALSE'', ''false'', ''False''] then Inr False
      else Inl (NumError ''ParseBool'' str ErrSyntax))"

text \<open>
  An integer literal: an optional sign and at least one decimal digit, nothing else.
\<close>

definition is_integer_literal :: "string \<Rightarrow> bool" where
  "is_integer_literal s \<longleftrightarrow>
     (let ds = (if s \<noteq> [] \<and> (hd s = CHR ''+'' \<or> hd s = CHR ''-'') then tl s else s)
      in ds \<noteq> [] \<and> list_all is_digit ds)"

subsection \<open>The server and its handlers\<close>

text \<open>
  Each generated handler reads its parameters from the query, calls the method of the
  server that does the work, and answers with its output as JSON. The methods are not in
  this file of the repository: the server is given by them. They run on the state of the
  server (\<open>'s\<close>) and return an output (\<open>'o\<close>) or an error.
\<close>

record ('s, 'o) Server =
  handleComAtprotoAdminGetInviteCodes ::
    "string \<Rightarrow> int \<Rightarrow> string \<Rightarrow> 's \<Rightarrow> (error + 'o) \<times> 's"
  handleComAtprotoLabelQueryLabels ::
    "string \<Rightarrow> int \<Rightarrow> string list \<Rightarrow> string list \<Rightarrow> 's \<Rightarrow> (error + 'o) \<times> 's"
  handleComAtprotoRepoListRecords ::
    "string \<Rightarrow> string \<Rightarrow> int \<Rightarrow> string \<Rightarrow> bool option \<Rightarrow> string \<Rightarrow> string \<Rightarrow> 's
       \<Rightarrow> (error + 'o) \<times> 's"
  handleComAtprotoSyncListBlobs ::
    "string \<Rightarrow> string \<Rightarrow> int \<Rightarrow> string \<Rightarrow> 's \<Rightarrow> (error + 'o) \<times> 's"
  handleComAtprotoSyncListRepos ::
    "string \<Rightarrow> int \<Rightarrow> 's \<Rightarrow> (error + 'o) \<times> 's"
  handleComAtprotoTempFetchLabels ::
    "int \<Rightarrow> int option \<Rightarrow> 's \<Rightarrow> (error + 'o) \<times> 's"

text \<open>What a handler leaves behind: an error for the framework, or a JSON response.\<close>

datatype 'o reply = JSON nat 'o

text \<open>
  The end of every handler: \<open>if err != nil { return err }; return c.JSON(200, out)\<close>.
\<close>

definition answer :: "(error + 'o) \<times> 's \<Rightarrow> (error + 'o reply) \<times> 's" where
  "answer r = (case r of (Inl err, s) \<Rightarrow> (Inl err, s) | (Inr out, s) \<Rightarrow> (Inr (JSON 200 out), s))"

definition HandleComAtprotoAdminGetInviteCodes ::
  "('s, 'o) Server \<Rightarrow> Values \<Rightarrow> 's \<Rightarrow> (error + 'o reply) \<times> 's" where
  "HandleComAtprotoAdminGetInviteCodes srv c s =
     (let cursor = QueryParam c ''cursor'';
          p = QueryParam c ''limit''
      in case (if p \<noteq> [] then Atoi p else Inr 100) of
           Inl err \<Rightarrow> (Inl err, s)
         | Inr limit \<Rightarrow>
             let sort = QueryParam c ''sort''
             in answer (handleComAtprotoAdminGetInviteCodes srv cursor limit sort s))"

definition HandleComAtprotoLabelQueryLabels ::
  "('s, 'o) Server \<Rightarrow> Values \<Rightarrow> 's \<Rightarrow> (error + 'o reply) \<times> 's" where
  "HandleComAtprotoLabelQueryLabels srv c s =
     (let cursor = QueryParam c ''cursor'';
          p = QueryParam c ''limit''
      in case (if p \<noteq> [] then Atoi p else Inr 50) of
           Inl err \<Rightarrow> (Inl err, s)
         | Inr limit \<Rightarrow>
             let sources = c ''sources'';
                 uriPatterns = c ''uriPatterns''
             in answer (handleComAtprotoLabelQueryLabels srv cursor limit sources uriPatterns s))"

definition HandleComAtprotoRepoListRecords ::
  "('s, 'o) Server \<Rightarrow> Values \<Rightarrow> 's \<Rightarrow> (error + 'o reply) \<times> 's" where
  "HandleComAtprotoRepoListRecords srv c s =
     (let collection = QueryParam c ''collection'';
          cursor = QueryParam c ''cursor'';
          p = QueryParam c ''limit''
      in case (if p \<noteq> [] then Atoi p else Inr 50) of
           Inl err \<Rightarrow> (Inl err, s)
         | Inr limit \<Rightarrow>
             (let repo = QueryParam c ''repo'';
                  p' = QueryParam c ''reverse''
              in case (if p' \<noteq> [] then map_sum id Some (ParseBool p') else Inr None) of
                   Inl err \<Rightarrow> (Inl err, s)
                 | Inr reverse \<Rightarrow>
                     let rkeyEnd = QueryParam c ''rkeyEnd'';
                         rkeyStart = QueryParam c ''rkeyStart''
                     in answer (handleComAtprotoRepoListRecords srv collection cursor limit repo
                                  reverse rkeyEnd rkeyStart s)))"

definition HandleComAtprotoSyncListBlobs ::
  "('s, 'o) Server \<Rightarrow> Values \<Rightarrow> 's \<Rightarrow> (error + 'o reply) \<times> 's" where
  "HandleComAtprotoSyncListBlobs srv c s =
     (let cursor = QueryParam c ''cursor'';
          did = QueryParam c ''did'';
          p = QueryParam c ''limit''
      in case (if p \<noteq> [] then Atoi p else Inr 500) of
           Inl err \<Rightarrow> (Inl err, s)
         | Inr limit \<Rightarrow>
             let since = QueryParam c ''since''
             in answer (handleComAtprotoSyncListBlobs srv cursor did limit since s))"

definition HandleComAtprotoSyncListRepos ::
  "('s, 'o) Server \<Rightarrow> Values \<Rightarrow> 's \<Rightarrow> (error + 'o reply) \<times> 's" where
  "HandleComAtprotoSyncListRepos srv c s =
     (let cursor = QueryParam c ''cursor'';
          p = QueryParam c ''limit''
      in case (if p \<noteq> [] then Atoi p else Inr 500) of
           Inl err \<Rightarrow> (Inl err, s)
         | Inr limit \<Rightarrow> answer (handleComAtprotoSyncListRepos srv cursor limit s))"

definition HandleComAtprotoTempFetchLabels ::
  "('s, 'o) Server \<Rightarrow> Values \<Rightarrow> 's \<Rightarrow> (error + 'o reply) \<times> 's" where
  "HandleComAtprotoTempFetchLabels srv c s =
     (let p = QueryParam c ''limit''
      in case (if p \<noteq> [] then Atoi p else Inr 50) of
           Inl err \<Rightarrow> (Inl err, s)
         | Inr limit \<Rightarrow>
             (let p' = QueryParam c ''since''
              in case (if p' \<noteq> [] then map_sum id Some (Atoi p') else Inr None) of
                   Inl err \<Rightarrow> (Inl err, s)
                 | Inr since \<Rightarrow> answer (handleComAtprotoTempFetchLabels srv limit since s)))"

text \<open>
  A server to try the handlers on: its state counts the calls of its methods, and each
  method returns the limit it was given.
\<close>

definition counting_server :: "(nat, int) Server" where
  "counting_server =
     \<lparr> handleComAtprotoAdminGetInviteCodes = (\<lambda>cursor limit sort n. (Inr limit, Suc n)),
       handleComAtprotoLabelQueryLabels = (\<lambda>cursor limit sources uriPatterns n. (Inr limit, Suc n)),
       handleComAtprotoRepoListRecords =
         (\<lambda>collection cursor limit repo reverse rkeyEnd rkeyStart n. (Inr limit, Suc n)),
       handleComAtprotoSyncListBlobs = (\<lambda>cursor did limit since n. (Inr limit, Suc n)),
       handleComAtprotoSyncListRepos = (\<lambda>cursor limit n. (Inr limit, Suc n)),
       handleComAtprotoTempFetchLabels = (\<lambda>limit since n. (Inr limit, Suc n)) \<rparr>"

text \<open>The query with the given names and values, in their order.\<close>

definition query_of :: "(string \<times> string) list \<Rightarrow> Values" where
  "query_of ps name = map snd (filter (\<lambda>kv. fst kv = name) ps)"

section \<open>The sequence cache, the dispatcher and a subscriber\<close>

text \<open>
  Modelled from the spec: the packages \<open>events\<close> and \<open>splitter\<close>, which hold the cache
  with its eviction, the upstream client, the dispatcher and the subscribers, are not
  among the source files; only their caller, \<open>Splitter\<close>, is. Every definition of this
  section follows the words of the specification (its sections 3 and 4), not code.
\<close>

subsection \<open>Frames and cache entries\<close>

text \<open>
  Modelled from the spec: the frame, of which the core reads the kind and, for a message,
  the sequence number; and the cache entry \<open>(seq, received_at, size, frame_bytes)\<close>. The
  absent types are the frame envelope and the entry of the embedded store.
\<close>

datatype kind = Message | Info | Error

record frame =
  kind :: kind
  seq :: nat
  body :: string

record entry =
  entry_seq :: nat
  received_at :: int
  entry_size :: nat
  frame_bytes :: string

type_synonym cache = "entry list"

definition is_message :: "frame \<Rightarrow> bool" where
  "is_message f \<longleftrightarrow> kind f = Message"

definition message_seqs :: "frame list \<Rightarrow> nat list" where
  "message_seqs fs = map seq (filter is_message fs)"


subsection \<open>The cache\<close>


definition bounds :: "cache \<Rightarrow> (nat \<times> nat) option" where
  "bounds c = (if c = [] then None else Some (entry_seq (hd c), entry_seq (last c)))"



text \<open>
  Modelled from the spec: the eviction policy (absent: the garbage collection of the
  persistence layer). Time eviction: while \<open>seq_lo\<close> exists and
  \<open>now - received_at(seq_lo) > persist_duration\<close>, delete \<open>seq_lo\<close>. Size eviction, only
  if \<open>max_bytes > 0\<close>: while \<open>sum(size) > max_bytes\<close>, delete \<open>seq_lo\<close>. A tick of the
  background task does the first, then the second.
\<close>

fun time_evict :: "int \<Rightarrow> int \<Rightarrow> cache \<Rightarrow> cache" where
  "time_evict now persist_duration [] = []"
| "time_evict now persist_duration (e # es) =
     (if now - received_at e > persist_duration
      then time_evict now persist_duration es else e # es)"

fun size_evict_loop :: "nat \<Rightarrow> cache \<Rightarrow> cache" where
  "size_evict_loop max_bytes [] = []"
| "size_evict_loop max_bytes (e # es) =
     (if sum_list (map entry_size (e # es)) > max_bytes
      then size_evict_loop max_bytes es else e # es)"

definition size_evict :: "nat \<Rightarrow> cache \<Rightarrow> cache" where
  "size_evict max_bytes c = (if max_bytes > 0 then size_evict_loop max_bytes c else c)"

definition gc_tick :: "int \<Rightarrow> int \<Rightarrow> nat \<Rightarrow> cache \<Rightarrow> cache" where
  "gc_tick now persist_duration max_bytes c =
     size_evict max_bytes (time_evict now persist_duration c)"

subsection \<open>A subscriber\<close>

text \<open>
  Modelled from the spec: the subscriber's state and its state machine (absent: the
  subscriber of the \<open>splitter\<close> package). \<open>scan\<close> is what is left of the cache scan,
  \<open>staging\<close> the buffer that takes the live feed during replay, \<open>delivered\<close> the frames
  sent on the connection so far, oldest first.
\<close>

datatype phase = Replay | Live | Closing

datatype reason = OutdatedCursor | FutureCursor | ConsumerTooSlow | ClientDisconnect

record subscriber =
  requested_cursor :: "nat option"
  phase :: phase
  last_sent_seq :: "nat option"
  scan :: "entry list"
  staging :: "frame list"
  outbound_queue :: "frame list"
  delivered :: "frame list"
  disconnect_reason :: "reason option"

text \<open>
  Modelled from the spec: the parameters of the core. \<open>scan_sees_appends\<close> chooses
  between the two accounts the spec gives of a scan that runs while frames are appended:
  a snapshot of the cache at the time of the call, or a scan that sees an append as long
  as it has not passed \<open>seq_hi\<close>.
\<close>

record config =
  persist_duration :: int
  max_bytes :: nat
  queue_capacity :: nat
  small_tolerance :: nat
  scan_sees_appends :: bool

text \<open>Sending a frame on the connection: a message advances \<open>last_sent_seq\<close>.\<close>

definition deliver :: "frame \<Rightarrow> subscriber \<Rightarrow> subscriber" where
  "deliver f s =
     s\<lparr> delivered := delivered s @ [f],
        last_sent_seq := (if is_message f then Some (seq f) else last_sent_seq s) \<rparr>"

fun deliver_all :: "frame list \<Rightarrow> subscriber \<Rightarrow> subscriber" where
  "deliver_all [] s = s"
| "deliver_all (f # fs) s = deliver_all fs (deliver f s)"







subsection \<open>The system\<close>

text \<open>
  Modelled from the spec: the cache, the upstream client's \<open>latest_known_seq\<close> and one
  subscriber, driven by what happens to them. \<open>admitted\<close> lists every sequence number
  ever admitted to the cache, oldest first; the system does not read it, the statements
  about the system do.
\<close>

record system =
  cache :: cache
  latest_known_seq :: "nat option"
  admitted :: "nat list"
  sub :: "subscriber option"








subsection \<open>What holds of every reachable state\<close>




subsection \<open>An example run\<close>





text \<open>A cache of four frames of 512 bytes each.\<close>

definition four_frames :: cache where
  "four_frames =
     map (\<lambda>n. \<lparr> entry_seq = n, received_at = 0, entry_size = 512,
                 frame_bytes = replicate 512 (CHR ''x'') \<rparr>) [1, 2, 3, 4]"

section \<open>Properties of the rainbow daemon\<close>

subsection \<open>Words\<close>

lemma uint64_of_int64_id: "uint64_of_int64 x = x"
proof -
  have a: "(word_of_int (sint x mod 2 ^ 64) :: 64 word) = word_of_int (sint x)"
    unfolding word_of_int_eq_iff take_bit_eq_mod by simp
  show ?thesis
    unfolding uint64_of_int64_def a by simp
qed

lemma uint_uint64_of_int64: "uint (uint64_of_int64 x) = sint x mod 2 ^ 64"
  by (simp add: uint64_of_int64_def uint_word_of_int)

lemma sint_neg_uint64:
  assumes "sint (x :: int64) < 0"
  shows "uint (uint64_of_int64 x) = 2 ^ 64 + sint x"
proof -
  have lo: "- (2 ^ 63) \<le> sint x"
    using sint_ge [of x] by simp
  have "sint x mod 2 ^ 64 = (sint x + 2 ^ 64) mod 2 ^ 64"
    by simp
  also have "\<dots> = sint x + 2 ^ 64"
    using lo assms by (intro mod_pos_pos_trivial) simp_all
  finally show ?thesis
    by (simp add: uint_uint64_of_int64)
qed

lemma five_minutes: "sint (5 * Minute) = 300000000000"
  by (simp add: Minute_def Second_def Millisecond_def Microsecond_def Nanosecond_def)

subsection \<open>Exit codes\<close>



subsection \<open>The insecure-upstream flag\<close>

text \<open>
  C2. The flag \<open>crawl-insecure-ws\<close> is declared and never read: the configuration that
  \<open>Splitter\<close> builds, and all that \<open>Splitter\<close> does, is the same whatever its value. So
  the flag cannot choose between \<open>ws://\<close> and \<open>wss://\<close>.
\<close>

theorem crawl_insecure_ws_unused:
  "Splitter_conf impl (cctx\<lparr>crawl_insecure_ws := b\<rparr>) = Splitter_conf impl cctx
   \<and> Splitter env (cctx\<lparr>crawl_insecure_ws := b\<rparr>) = Splitter env cctx"
proof -
  have c: "Splitter_conf i (cctx\<lparr>crawl_insecure_ws := b\<rparr>) = Splitter_conf i cctx" for i
    by (simp add: Splitter_conf_def Let_def)
  show ?thesis
    by (simp add: c Splitter_def Let_def split: option.split event.split)
qed

subsection \<open>Persistence path and in-memory mode\<close>


subsection \<open>The GC period\<close>

text \<open>
  C7. With a persistence path, the options of the embedded store have a GC period of
  five minutes (300 seconds, in nanoseconds), whatever the flags.
\<close>

theorem gc_period_five_minutes:
  "persist_db cctx \<noteq> [] \<Longrightarrow>
   \<exists>opts. PebbleOptions (Splitter_conf impl cctx) = Some opts
     \<and> GCPeriod opts = 5 * Minute \<and> sint (GCPeriod opts) = 5 * 60 * 10 ^ 9"
  by (simp add: Splitter_conf_def Let_def five_minutes)

theorem gc_period_five_minutes_witness:
  "persist_db default_flags \<noteq> []
   \<and> (\<exists>opts. PebbleOptions (Splitter_conf (\<lambda>f. 0) default_flags) = Some opts
         \<and> GCPeriod opts = 5 * Minute \<and> sint (GCPeriod opts) = 5 * 60 * 10 ^ 9)"
proof -
  have h: "persist_db default_flags \<noteq> []"
    by (simp add: default_flags_def)
  show ?thesis
    using h gc_period_five_minutes [OF h, of "\<lambda>f. 0"] by simp
qed

subsection \<open>A negative byte target\<close>

text \<open>
  C8, as amended. A negative \<open>persist-bytes\<close> is not rejected: the configuration is
  built, and its \<open>MaxBytes\<close> is the flag's value plus \<open>2 ^ 64\<close>, which is at least
  \<open>2 ^ 63\<close> and so not zero.
\<close>

theorem negative_persist_bytes:
  assumes "persist_db cctx \<noteq> []" and "sint (persist_bytes cctx) < 0"
  shows "\<exists>opts. PebbleOptions (Splitter_conf impl cctx) = Some opts
           \<and> uint (MaxBytes opts) = 2 ^ 64 + sint (persist_bytes cctx)
           \<and> 2 ^ 63 \<le> uint (MaxBytes opts)
           \<and> 0 < MaxBytes opts"
proof -
  let ?mb = "uint64_of_int64 (persist_bytes cctx)"
  have lo: "- (2 ^ 63) \<le> sint (persist_bytes cctx)"
    using sint_ge [of "persist_bytes cctx"] by simp
  have u: "uint ?mb = 2 ^ 64 + sint (persist_bytes cctx)"
    by (rule sint_neg_uint64 [OF assms(2)])
  have ge: "2 ^ 63 \<le> uint ?mb"
    using u lo by simp
  have "uint ?mb \<noteq> 0"
    using ge by simp
  then have pos: "0 < ?mb"
    by (metis word_gt_0 unsigned_0)
  show ?thesis
    using assms(1) u ge pos by (simp add: Splitter_conf_def Let_def)
qed

theorem negative_persist_bytes_witness:
  "persist_db (default_flags\<lparr>persist_bytes := - 1\<rparr>) \<noteq> []
   \<and> sint (persist_bytes (default_flags\<lparr>persist_bytes := - 1\<rparr>)) < 0
   \<and> (\<exists>opts. PebbleOptions (Splitter_conf (\<lambda>f. 0) (default_flags\<lparr>persist_bytes := - 1\<rparr>))
               = Some opts
         \<and> uint (MaxBytes opts) = 18446744073709551615
         \<and> 2 ^ 63 \<le> uint (MaxBytes opts)
         \<and> 0 < MaxBytes opts)"
proof -
  let ?c = "default_flags\<lparr>persist_bytes := - 1\<rparr>"
  have h1: "persist_db ?c \<noteq> []"
    by (simp add: default_flags_def)
  have h2: "sint (persist_bytes ?c) < 0"
    by simp
  show ?thesis
    using h1 h2 negative_persist_bytes [OF h1 h2, of "\<lambda>f. 0"] by simp
qed

text \<open>
  The bound of the claim as stated, greater than \<open>2 ^ 63\<close>, fails at the least
  \<open>int64\<close>, whose \<open>MaxBytes\<close> is \<open>2 ^ 63\<close> itself.
\<close>

theorem negative_persist_bytes_counterexample:
  "sint (persist_bytes (default_flags\<lparr>persist_bytes := - 9223372036854775808\<rparr>)) < 0
   \<and> \<not> (\<exists>opts. PebbleOptions
                   (Splitter_conf (\<lambda>f. 0)
                      (default_flags\<lparr>persist_bytes := - 9223372036854775808\<rparr>))
                 = Some opts
               \<and> 2 ^ 63 < uint (MaxBytes opts))"
  by (simp add: Splitter_conf_def Let_def default_flags_def uint64_of_int64_id)

subsection \<open>The persist duration\<close>

















section \<open>Properties of the effects of rule execution\<close>

lemma found_iff: "found xs v \<longleftrightarrow> v \<in> set xs"
  by (induction xs) auto

lemma no_duplicates_do_call: "no_duplicates e \<Longrightarrow> no_duplicates (do_call c e)"
  by (cases c)
     (simp_all add: no_duplicates_def found_iff Let_def Increment_def IncrementPeriod_def
        IncrementDistinct_def AddAccountLabel_def AddAccountFlag_def ReportAccount_def
        TakedownAccount_def EscalateAccount_def AcknowledgeAccount_def AddRecordLabel_def
        AddRecordFlag_def ReportRecord_def TakedownRecord_def TakedownBlob_def Notify_def
        Reject_def)

lemma no_duplicates_do_calls: "no_duplicates e \<Longrightarrow> no_duplicates (do_calls cs e)"
  by (induction cs arbitrary: e) (simp_all add: no_duplicates_do_call)

lemma no_duplicates_zero: "no_duplicates zero_Effects"
  by (simp add: no_duplicates_def zero_Effects_def)

text \<open>
  C9. Each of \<open>AddAccountLabel\<close>, \<open>AddAccountFlag\<close>, \<open>AddRecordLabel\<close>, \<open>AddRecordFlag\<close>,
  \<open>TakedownBlob\<close> and \<open>Notify\<close> leaves the effects as they are when its value is already
  in its list, so calling it twice is the same as calling it once; and after any sequence
  of calls of any of the methods on fresh effects, none of the six lists holds a value
  twice.
\<close>

theorem effects_add_idempotent:
  "(v \<in> set (AccountLabels e) \<longrightarrow> AddAccountLabel v e = e)
   \<and> (v \<in> set (AccountFlags e) \<longrightarrow> AddAccountFlag v e = e)
   \<and> (v \<in> set (RecordLabels e) \<longrightarrow> AddRecordLabel v e = e)
   \<and> (v \<in> set (RecordFlags e) \<longrightarrow> AddRecordFlag v e = e)
   \<and> (v \<in> set (BlobTakedowns e) \<longrightarrow> TakedownBlob v e = e)
   \<and> (v \<in> set (NotifyServices e) \<longrightarrow> Notify v e = e)
   \<and> AddAccountLabel v (AddAccountLabel v e) = AddAccountLabel v e
   \<and> AddAccountFlag v (AddAccountFlag v e) = AddAccountFlag v e
   \<and> AddRecordLabel v (AddRecordLabel v e) = AddRecordLabel v e
   \<and> AddRecordFlag v (AddRecordFlag v e) = AddRecordFlag v e
   \<and> TakedownBlob v (TakedownBlob v e) = TakedownBlob v e
   \<and> Notify v (Notify v e) = Notify v e
   \<and> distinct (AccountLabels (do_calls cs zero_Effects))
   \<and> distinct (AccountFlags (do_calls cs zero_Effects))
   \<and> distinct (RecordLabels (do_calls cs zero_Effects))
   \<and> distinct (RecordFlags (do_calls cs zero_Effects))
   \<and> distinct (BlobTakedowns (do_calls cs zero_Effects))
   \<and> distinct (NotifyServices (do_calls cs zero_Effects))"
proof -
  have "no_duplicates (do_calls cs zero_Effects)"
    by (rule no_duplicates_do_calls [OF no_duplicates_zero])
  then show ?thesis
    by (simp add: no_duplicates_def found_iff AddAccountLabel_def AddAccountFlag_def
          AddRecordLabel_def AddRecordFlag_def TakedownBlob_def Notify_def)
qed

theorem effects_add_idempotent_witness:
  "''spam'' \<in> set (AccountLabels (do_calls example_calls zero_Effects))
   \<and> ''spam'' \<in> set (AccountFlags (do_calls example_calls zero_Effects))
   \<and> ''spam'' \<in> set (RecordLabels (do_calls example_calls zero_Effects))
   \<and> ''spam'' \<in> set (RecordFlags (do_calls example_calls zero_Effects))
   \<and> ''spam'' \<in> set (BlobTakedowns (do_calls example_calls zero_Effects))
   \<and> ''spam'' \<in> set (NotifyServices (do_calls example_calls zero_Effects))
   \<and> AddAccountLabel ''spam'' (do_calls example_calls zero_Effects)
       = do_calls example_calls zero_Effects
   \<and> AddAccountFlag ''spam'' (do_calls example_calls zero_Effects)
       = do_calls example_calls zero_Effects
   \<and> AddRecordLabel ''spam'' (do_calls example_calls zero_Effects)
       = do_calls example_calls zero_Effects
   \<and> AddRecordFlag ''spam'' (do_calls example_calls zero_Effects)
       = do_calls example_calls zero_Effects
   \<and> TakedownBlob ''spam'' (do_calls example_calls zero_Effects)
       = do_calls example_calls zero_Effects
   \<and> Notify ''spam'' (do_calls example_calls zero_Effects)
       = do_calls example_calls zero_Effects
   \<and> RecordLabels (do_calls example_calls zero_Effects) = [''spam'', ''porn'']"
proof -
  let ?e = "do_calls example_calls zero_Effects"
  have e: "?e = zero_Effects\<lparr>CounterIncrements := [\<lparr>Name = ''n'', Val = ''v'', Period = None\<rparr>],
      AccountLabels := [''spam''], AccountFlags := [''spam''], RecordLabels := [''spam'', ''porn''],
      RecordFlags := [''spam''], BlobTakedowns := [''spam''], NotifyServices := [''spam'']\<rparr>"
    by (simp add: example_calls_def zero_Effects_def Increment_def AddAccountLabel_def
          AddAccountFlag_def AddRecordLabel_def AddRecordFlag_def TakedownBlob_def Notify_def)
  have m: "''spam'' \<in> set (AccountLabels ?e)" "''spam'' \<in> set (AccountFlags ?e)"
    "''spam'' \<in> set (RecordLabels ?e)" "''spam'' \<in> set (RecordFlags ?e)"
    "''spam'' \<in> set (BlobTakedowns ?e)" "''spam'' \<in> set (NotifyServices ?e)"
    "RecordLabels ?e = [''spam'', ''porn'']"
    unfolding e by simp_all
  show ?thesis
    using m effects_add_idempotent [of "''spam''" ?e] by blast
qed

section \<open>Properties of the PDS handlers\<close>

lemma ParseUint_digits: "ParseUint s n = Inr m \<Longrightarrow> list_all is_digit s"
  by (induction s arbitrary: n) (auto split: if_splits)

lemma Atoi_not_literal:
  assumes "p \<noteq> []" and "\<not> is_integer_literal p"
  shows "\<exists>e. Atoi p = Inl (NumError ''Atoi'' p e)"
proof -
  let ?s = "if hd p = CHR ''+'' \<or> hd p = CHR ''-'' then tl p else p"
  show ?thesis
  proof (cases "?s = []")
    case True
    then show ?thesis
      using assms(1) by (simp add: Atoi_def Let_def)
  next
    case False
    have "\<not> list_all is_digit ?s"
      using assms False by (simp add: is_integer_literal_def Let_def)
    then obtain e where "ParseUint ?s 0 = Inl e"
      using ParseUint_digits [of ?s 0] by (cases "ParseUint ?s 0") auto
    then show ?thesis
      using assms(1) False by (simp add: Atoi_def Let_def)
  qed
qed

lemmas Handle_defs =
  HandleComAtprotoAdminGetInviteCodes_def HandleComAtprotoLabelQueryLabels_def
  HandleComAtprotoRepoListRecords_def HandleComAtprotoSyncListBlobs_def
  HandleComAtprotoSyncListRepos_def HandleComAtprotoTempFetchLabels_def

text \<open>
  C10, as amended. In each of the six handlers that take \<open>limit\<close>: when the parameter is
  absent, or its first value is the empty string, the method of the server is called
  with the handler's default (100 for getInviteCodes, 50 for queryLabels, listRecords and
  fetchLabels, 500 for listBlobs and listRepos; listRecords and fetchLabels first parse
  one more parameter, which may fail); when its value is not empty and not an integer
  literal, \<open>Atoi\<close> fails and the handler returns that error, whatever the server's method
  is, and leaves the state of the server as it was.
\<close>

theorem limit_parameter:
  "(QueryParam c ''limit'' = [] \<longrightarrow>
      HandleComAtprotoAdminGetInviteCodes srv c s
        = answer (handleComAtprotoAdminGetInviteCodes srv
                    (QueryParam c ''cursor'') 100 (QueryParam c ''sort'') s)
    \<and> HandleComAtprotoLabelQueryLabels srv c s
        = answer (handleComAtprotoLabelQueryLabels srv
                    (QueryParam c ''cursor'') 50 (c ''sources'') (c ''uriPatterns'') s)
    \<and> HandleComAtprotoSyncListBlobs srv c s
        = answer (handleComAtprotoSyncListBlobs srv
                    (QueryParam c ''cursor'') (QueryParam c ''did'') 500 (QueryParam c ''since'') s)
    \<and> HandleComAtprotoSyncListRepos srv c s
        = answer (handleComAtprotoSyncListRepos srv (QueryParam c ''cursor'') 500 s)
    \<and> HandleComAtprotoRepoListRecords srv c s
        = (case (if QueryParam c ''reverse'' \<noteq> []
                 then map_sum id Some (ParseBool (QueryParam c ''reverse'')) else Inr None) of
             Inl err \<Rightarrow> (Inl err, s)
           | Inr reverse \<Rightarrow>
               answer (handleComAtprotoRepoListRecords srv
                         (QueryParam c ''collection'') (QueryParam c ''cursor'') 50
                         (QueryParam c ''repo'') reverse
                         (QueryParam c ''rkeyEnd'') (QueryParam c ''rkeyStart'') s))
    \<and> HandleComAtprotoTempFetchLabels srv c s
        = (case (if QueryParam c ''since'' \<noteq> []
                 then map_sum id Some (Atoi (QueryParam c ''since'')) else Inr None) of
             Inl err \<Rightarrow> (Inl err, s)
           | Inr since \<Rightarrow> answer (handleComAtprotoTempFetchLabels srv 50 since s)))
   \<and> (QueryParam c ''limit'' \<noteq> [] \<and> \<not> is_integer_literal (QueryParam c ''limit'') \<longrightarrow>
        (\<exists>e. Atoi (QueryParam c ''limit'') = Inl (NumError ''Atoi'' (QueryParam c ''limit'') e)
           \<and> HandleComAtprotoAdminGetInviteCodes srv c s
               = (Inl (NumError ''Atoi'' (QueryParam c ''limit'') e), s)
           \<and> HandleComAtprotoLabelQueryLabels srv c s
               = (Inl (NumError ''Atoi'' (QueryParam c ''limit'') e), s)
           \<and> HandleComAtprotoRepoListRecords srv c s
               = (Inl (NumError ''Atoi'' (QueryParam c ''limit'') e), s)
           \<and> HandleComAtprotoSyncListBlobs srv c s
               = (Inl (NumError ''Atoi'' (QueryParam c ''limit'') e), s)
           \<and> HandleComAtprotoSyncListRepos srv c s
               = (Inl (NumError ''Atoi'' (QueryParam c ''limit'') e), s)
           \<and> HandleComAtprotoTempFetchLabels srv c s
               = (Inl (NumError ''Atoi'' (QueryParam c ''limit'') e), s)))"
proof (intro conjI impI)
  assume "QueryParam c ''limit'' \<noteq> [] \<and> \<not> is_integer_literal (QueryParam c ''limit'')"
  then obtain e
    where e: "Atoi (QueryParam c ''limit'') = Inl (NumError ''Atoi'' (QueryParam c ''limit'') e)"
      and ne: "QueryParam c ''limit'' \<noteq> []"
    using Atoi_not_literal by blast
  show "\<exists>e. Atoi (QueryParam c ''limit'') = Inl (NumError ''Atoi'' (QueryParam c ''limit'') e)
           \<and> HandleComAtprotoAdminGetInviteCodes srv c s
               = (Inl (NumError ''Atoi'' (QueryParam c ''limit'') e), s)
           \<and> HandleComAtprotoLabelQueryLabels srv c s
               = (Inl (NumError ''Atoi'' (QueryParam c ''limit'') e), s)
           \<and> HandleComAtprotoRepoListRecords srv c s
               = (Inl (NumError ''Atoi'' (QueryParam c ''limit'') e), s)
           \<and> HandleComAtprotoSyncListBlobs srv c s
               = (Inl (NumError ''Atoi'' (QueryParam c ''limit'') e), s)
           \<and> HandleComAtprotoSyncListRepos srv c s
               = (Inl (NumError ''Atoi'' (QueryParam c ''limit'') e), s)
           \<and> HandleComAtprotoTempFetchLabels srv c s
               = (Inl (NumError ''Atoi'' (QueryParam c ''limit'') e), s)"
    using e ne by (intro exI [of _ e]) (simp add: Handle_defs Let_def)
qed (simp_all add: Handle_defs Let_def split: sum.split)

text \<open>
  The theorem at two requests to the counting server: without \<open>limit\<close>, listRepos calls
  the server's method with 500; with \<open>limit=abc\<close> it returns the error of \<open>Atoi\<close> and
  the method is not called.
\<close>

theorem limit_parameter_witness:
  "QueryParam (query_of [(''cursor'', ''x'')]) ''limit'' = []
   \<and> HandleComAtprotoAdminGetInviteCodes counting_server (query_of [(''cursor'', ''x'')]) 0
       = (Inr (JSON 200 100), 1)
   \<and> HandleComAtprotoLabelQueryLabels counting_server (query_of [(''cursor'', ''x'')]) 0
       = (Inr (JSON 200 50), 1)
   \<and> HandleComAtprotoSyncListBlobs counting_server (query_of [(''cursor'', ''x'')]) 0
       = (Inr (JSON 200 500), 1)
   \<and> HandleComAtprotoSyncListRepos counting_server (query_of [(''cursor'', ''x'')]) 0
       = (Inr (JSON 200 500), 1)
   \<and> QueryParam (query_of [(''limit'', ''abc'')]) ''limit'' \<noteq> []
   \<and> \<not> is_integer_literal (QueryParam (query_of [(''limit'', ''abc'')]) ''limit'')
   \<and> HandleComAtprotoSyncListRepos counting_server (query_of [(''limit'', ''abc'')]) 0
       = (Inl (NumError ''Atoi'' ''abc'' ''invalid syntax''), 0)"
proof -
  let ?c0 = "query_of [(''cursor'', ''x'')]"
  let ?c1 = "query_of [(''limit'', ''abc'')]"
  have h0: "QueryParam ?c0 ''limit'' = []"
    by (simp add: QueryParam_def query_of_def)
  have p1: "QueryParam ?c1 ''limit'' = ''abc''"
    by (simp add: QueryParam_def query_of_def)
  have h1: "QueryParam ?c1 ''limit'' \<noteq> [] \<and> \<not> is_integer_literal (QueryParam ?c1 ''limit'')"
    unfolding p1 by (simp add: is_integer_literal_def is_digit_def)
  have a: "Atoi ''abc'' = Inl (NumError ''Atoi'' ''abc'' ''invalid syntax'')"
    by (simp add: Atoi_def is_digit_def ErrSyntax_def)
  have ops: "answer (handleComAtprotoAdminGetInviteCodes counting_server cur 100 srt (0::nat))
               = (Inr (JSON 200 100), 1)"
    "answer (handleComAtprotoLabelQueryLabels counting_server cur 50 srcs pats (0::nat))
               = (Inr (JSON 200 50), 1)"
    "answer (handleComAtprotoSyncListBlobs counting_server cur did 500 since (0::nat))
               = (Inr (JSON 200 500), 1)"
    "answer (handleComAtprotoSyncListRepos counting_server cur 500 (0::nat))
               = (Inr (JSON 200 500), 1)"
    for cur srt srcs pats did since
    by (simp_all add: counting_server_def answer_def)
  from limit_parameter [of ?c0 counting_server 0] h0
  have "HandleComAtprotoAdminGetInviteCodes counting_server ?c0 0 = (Inr (JSON 200 100), 1)"
    and "HandleComAtprotoLabelQueryLabels counting_server ?c0 0 = (Inr (JSON 200 50), 1)"
    and "HandleComAtprotoSyncListBlobs counting_server ?c0 0 = (Inr (JSON 200 500), 1)"
    and "HandleComAtprotoSyncListRepos counting_server ?c0 0 = (Inr (JSON 200 500), 1)"
    by (simp_all only: ops)
  moreover from limit_parameter [of ?c1 counting_server 0] h1
  have "HandleComAtprotoSyncListRepos counting_server ?c1 0
          = (Inl (NumError ''Atoi'' ''abc'' ''invalid syntax''), 0)"
    unfolding p1 a by auto
  ultimately show ?thesis
    using h0 h1 by simp
qed

text \<open>
  The claim as stated fails for a \<open>limit\<close> that is present and empty: the empty string is
  no integer, yet the handler takes it as absent, and calls the server's method with the
  default.
\<close>

theorem limit_parameter_counterexample:
  "query_of [(''limit'', [])] ''limit'' = [[]]
   \<and> \<not> is_integer_literal []
   \<and> HandleComAtprotoSyncListRepos counting_server (query_of [(''limit'', [])]) 0
       = (Inr (JSON 200 500), 1)"
  by (simp add: query_of_def QueryParam_def is_integer_literal_def
        HandleComAtprotoSyncListRepos_def counting_server_def answer_def)

section \<open>Properties of the cache and the subscriber\<close>


lemma message_seqs_Nil [simp]: "message_seqs [] = []"
  by (simp add: message_seqs_def)







lemma deliver_fields [simp]:
  "delivered (deliver f s) = delivered s @ [f]"
  "phase (deliver f s) = phase s"
  "scan (deliver f s) = scan s"
  "staging (deliver f s) = staging s"
  "outbound_queue (deliver f s) = outbound_queue s"
  "last_sent_seq (deliver f s) = (if is_message f then Some (seq f) else last_sent_seq s)"
  by (simp_all add: deliver_def)


lemma deliver_all_fields [simp]:
  "delivered (deliver_all fs s) = delivered s @ fs"
  "phase (deliver_all fs s) = phase s"
  "scan (deliver_all fs s) = scan s"
  "staging (deliver_all fs s) = staging s"
  "outbound_queue (deliver_all fs s) = outbound_queue s"
  by (induction fs arbitrary: s) simp_all





























subsection \<open>Size eviction\<close>

text \<open>
  C4. The default of \<open>persist-bytes\<close> is 0. When the flag is 0, the options that
  \<open>Splitter\<close> builds have \<open>MaxBytes = 0\<close>, and with that target size eviction returns
  the cache as it is: a tick of the background task evicts by time only. Size eviction
  changes the cache only when the target is greater than 0.
\<close>

theorem size_eviction_disabled_at_zero:
  "persist_bytes default_flags = 0
   \<and> (persist_bytes cctx = 0 \<longrightarrow>
        (\<forall>opts. PebbleOptions (Splitter_conf impl cctx) = Some opts \<longrightarrow>
           MaxBytes opts = 0
           \<and> size_evict (unat (MaxBytes opts)) c = c
           \<and> gc_tick now d (unat (MaxBytes opts)) c = time_evict now d c))
   \<and> (size_evict mb c \<noteq> c \<longrightarrow> 0 < mb)"
proof (intro conjI impI allI)
  show "persist_bytes default_flags = 0"
    by (simp add: default_flags_def)
next
  fix opts
  assume z: "persist_bytes cctx = 0" and o: "PebbleOptions (Splitter_conf impl cctx) = Some opts"
  from o have "MaxBytes opts = uint64_of_int64 (persist_bytes cctx)"
    by (auto simp add: Splitter_conf_def Let_def split: if_splits)
  then show mb: "MaxBytes opts = 0"
    using z by (simp add: uint64_of_int64_id)
  show "size_evict (unat (MaxBytes opts)) c = c"
    using mb by (simp add: size_evict_def)
  show "gc_tick now d (unat (MaxBytes opts)) c = time_evict now d c"
    using mb by (simp add: gc_tick_def size_evict_def)
next
  assume "size_evict mb c \<noteq> c"
  then show "0 < mb"
    by (cases "mb = 0") (simp_all add: size_evict_def)
qed

text \<open>
  The theorem at the default flags and at the cache of four frames of 512 bytes: with
  the default target nothing is evicted for size; with a target of 1024 bytes the two
  oldest frames are.
\<close>

theorem size_eviction_disabled_at_zero_witness:
  "persist_bytes default_flags = 0
   \<and> PebbleOptions (Splitter_conf (\<lambda>f. 0) default_flags)
       = Some (the (PebbleOptions (Splitter_conf (\<lambda>f. 0) default_flags)))
   \<and> MaxBytes (the (PebbleOptions (Splitter_conf (\<lambda>f. 0) default_flags))) = 0
   \<and> size_evict (unat (MaxBytes (the (PebbleOptions (Splitter_conf (\<lambda>f. 0) default_flags)))))
        four_frames = four_frames
   \<and> gc_tick 10 100
        (unat (MaxBytes (the (PebbleOptions (Splitter_conf (\<lambda>f. 0) default_flags)))))
        four_frames = four_frames
   \<and> size_evict 1024 four_frames = drop 2 four_frames
   \<and> size_evict 1024 four_frames \<noteq> four_frames
   \<and> (0 :: nat) < 1024"
proof -
  let ?o = "the (PebbleOptions (Splitter_conf (\<lambda>f. 0) default_flags))"
  have z: "persist_bytes default_flags = 0"
    by (simp add: default_flags_def)
  have o: "PebbleOptions (Splitter_conf (\<lambda>f. 0) default_flags) = Some ?o"
    by (simp add: Splitter_conf_def Let_def default_flags_def)
  have t: "time_evict 10 100 four_frames = four_frames"
    by (simp add: four_frames_def)
  have e: "size_evict 1024 four_frames = drop 2 four_frames"
    by (simp add: size_evict_def four_frames_def)
  have n: "size_evict 1024 four_frames \<noteq> four_frames"
    unfolding e by (simp add: four_frames_def)
  from size_eviction_disabled_at_zero
         [of default_flags "\<lambda>f. 0" four_frames 10 100 1024]
  have r: "MaxBytes ?o = 0" "size_evict (unat (MaxBytes ?o)) four_frames = four_frames"
    "gc_tick 10 100 (unat (MaxBytes ?o)) four_frames = time_evict 10 100 four_frames"
    "(0 :: nat) < 1024"
    using z o n by blast+
  have g: "gc_tick 10 100 (unat (MaxBytes ?o)) four_frames = four_frames"
    by (rule trans [OF r(3) t])
  show ?thesis
    by (intro conjI) (rule z o r(1) r(2) g e n r(4))+
qed

subsection \<open>The order of delivery\<close>




end
